theory Spec2Isabelle
  imports Main "HOL-Library.Sublist"
begin

section \<open>JavaScript strings\<close>

text \<open>
  A JavaScript string is modelled as a \<^typ>\<open>string\<close>, one \<^typ>\<open>char\<close> per code unit,
  read as Latin-1 (code units below 256). The recipe templates of the source need only
  two characters outside ASCII (U+00E9 and U+00B0), both in that range.
\<close>

definition is_space :: "char \<Rightarrow> bool" where
  \<comment> \<open>The white space and line terminators that \<open>String.prototype.trim\<close> strips,
      as far as they are below 256: TAB, LF, VT, FF, CR, SP, NBSP.\<close>
  "is_space c = (c \<in> set [CHR 0x09, CHR 0x0A, CHR 0x0B, CHR 0x0C, CHR 0x0D, CHR 0x20, CHR 0xA0])"

definition trim :: "string \<Rightarrow> string" where
  "trim s = rev (dropWhile is_space (rev (dropWhile is_space s)))"

fun split_on :: "char \<Rightarrow> string \<Rightarrow> string list" where
  \<comment> \<open>\<open>s.split(sep)\<close> for a separator of one character: \<open>''.split(',')\<close> is \<open>['']\<close>.\<close>
  "split_on sep [] = [[]]"
| "split_on sep (c # cs) =
     (if c = sep then [] # split_on sep cs
      else (case split_on sep cs of
              [] \<Rightarrow> [[c]]
            | p # ps \<Rightarrow> (c # p) # ps))"

definition is_upper :: "char \<Rightarrow> bool" where
  \<comment> \<open>A-Z, and U+00C0 to U+00DE without the multiplication sign U+00D7.\<close>
  "is_upper c =
     (let n = (of_char c :: nat)
      in (65 \<le> n \<and> n \<le> 90) \<or> (192 \<le> n \<and> n \<le> 222 \<and> n \<noteq> 215))"

definition lower_char :: "char \<Rightarrow> char" where
  \<comment> \<open>The lower-case letter is 32 above the upper-case one: bit 5, clear in every
      upper-case code, is set.\<close>
  "lower_char c =
     (if is_upper c
      then (case c of Char b0 b1 b2 b3 b4 b5 b6 b7 \<Rightarrow> Char b0 b1 b2 b3 b4 True b6 b7)
      else c)"

definition toLowerCase :: "string \<Rightarrow> string" where
  "toLowerCase s = map lower_char s"

fun starts_with :: "string \<Rightarrow> string \<Rightarrow> bool" where
  "starts_with s [] = True"
| "starts_with [] (q # qs) = False"
| "starts_with (c # cs) (q # qs) = (c = q \<and> starts_with cs qs)"

fun str_includes :: "string \<Rightarrow> string \<Rightarrow> bool" where
  \<comment> \<open>\<open>s.includes(q)\<close> on strings: \<open>q\<close> occurs in \<open>s\<close> as a substring.\<close>
  "str_includes [] q = (q = [])"
| "str_includes (c # cs) q = (starts_with (c # cs) q \<or> str_includes cs q)"

section \<open>The local suggestion generator\<close>

datatype Difficulty = Easy | Medium | Hard

record SuggestedRecipe =
  s_name :: string
  s_description :: string
  s_ingredients :: "string list"
  s_instructions :: "string list"
  s_cuisineType :: string
  s_preparationTime :: int
  s_servings :: int
  s_difficulty :: Difficulty
  s_tags :: "string list"

definition chicken_skillet :: SuggestedRecipe where
  "chicken_skillet = \<lparr>
     s_name = ''Garlic Herb Chicken Skillet'',
     s_description = ''A flavorful one-pan chicken dish with herbs and your available vegetables'',
     s_ingredients = [
       ''2 chicken breasts, sliced'',
       ''garlic cloves, minced'',
       ''mixed herbs (thyme, rosemary)'',
       ''vegetables from your list'',
       ''olive oil'',
       ''salt and pepper'',
       ''lemon juice''],
     s_instructions = [
       ''Season chicken with salt, pepper, and herbs'',
       ''Heat olive oil in a large skillet over medium-high heat'',
       ''Cook chicken until golden brown, about 6-7 minutes per side'',
       ''Add garlic and cook for 1 minute until fragrant'',
       ''Add your vegetables and cook until tender'',
       ''Finish with lemon juice and fresh herbs'',
       ''Serve hot with rice or potatoes''],
     s_cuisineType = ''Mediterranean'',
     s_preparationTime = 25,
     s_servings = 4,
     s_difficulty = Easy,
     s_tags = [''protein-rich'', ''one-pan'', ''healthy'', ''quick'']\<rparr>"

definition garden_pasta :: SuggestedRecipe where
  "garden_pasta = \<lparr>
     s_name = ''Fresh Garden Pasta'',
     s_description = ''Light and fresh pasta featuring your available ingredients'',
     s_ingredients = [
       ''pasta of choice (8 oz)'',
       ''olive oil'',
       ''garlic, minced'',
       ''fresh vegetables from your list'',
       ''parmesan cheese, grated'',
       ''fresh basil or herbs'',
       ''salt and pepper''],
     s_instructions = [
       ''Cook pasta according to package directions until al dente'',
       ''Reserve 1 cup pasta water before draining'',
       ''Heat olive oil in a large pan over medium heat'',
       ''Saut'' @ [CHR 0xE9] @ '' garlic until fragrant, about 1 minute'',
       ''Add your vegetables, cooking until just tender'',
       ''Toss in cooked pasta with a splash of pasta water'',
       ''Add parmesan cheese and fresh herbs'',
       ''Season with salt and pepper to taste''],
     s_cuisineType = ''Italian'',
     s_preparationTime = 20,
     s_servings = 4,
     s_difficulty = Easy,
     s_tags = [''pasta'', ''vegetarian'', ''fresh'', ''quick'']\<rparr>"

definition rice_pilaf :: SuggestedRecipe where
  "rice_pilaf = \<lparr>
     s_name = ''Savory Rice Pilaf'',
     s_description = ''A hearty rice dish incorporating your available ingredients'',
     s_ingredients = [
       ''1 cup long-grain rice'',
       ''2 cups chicken or vegetable broth'',
       ''onion, diced'',
       ''your protein and vegetables'',
       ''garlic, minced'',
       ''herbs and spices'',
       ''butter or oil''],
     s_instructions = [
       ''Heat butter in a large saucepan over medium heat'',
       ''Add rice and toast for 2-3 minutes until fragrant'',
       ''Add onion and garlic, cook until softened'',
       ''Pour in broth and bring to a boil'',
       ''Add your protein and harder vegetables'',
       ''Reduce heat, cover, and simmer for 18-20 minutes'',
       ''Add softer vegetables in the last 5 minutes'',
       ''Let stand 5 minutes, then fluff with a fork''],
     s_cuisineType = ''Mediterranean'',
     s_preparationTime = 35,
     s_servings = 6,
     s_difficulty = Medium,
     s_tags = [''rice'', ''one-pot'', ''filling'', ''comfort-food'']\<rparr>"

definition vegetable_medley :: SuggestedRecipe where
  "vegetable_medley = \<lparr>
     s_name = ''Mediterranean Vegetable Medley'',
     s_description = ''A colorful and nutritious vegetable dish bursting with Mediterranean flavors'',
     s_ingredients = [
       ''mixed vegetables from your list'',
       ''olive oil'',
       ''garlic, minced'',
       ''onion, sliced'',
       ''canned diced tomatoes'',
       ''herbs (oregano, basil, thyme)'',
       ''feta cheese (optional)'',
       ''salt and pepper''],
     s_instructions = [
       ''Heat olive oil in a large skillet or dutch oven'',
       ''Saut'' @ [CHR 0xE9] @ '' onion until softened, about 5 minutes'',
       ''Add garlic and cook for 1 minute'',
       ''Add harder vegetables first, cook for 5-7 minutes'',
       ''Add tomatoes and herbs, season with salt and pepper'',
       ''Simmer for 15-20 minutes until vegetables are tender'',
       ''Add softer vegetables in the last 5 minutes'',
       ''Serve hot, optionally topped with feta cheese''],
     s_cuisineType = ''Mediterranean'',
     s_preparationTime = 30,
     s_servings = 4,
     s_difficulty = Easy,
     s_tags = [''vegetarian'', ''healthy'', ''mediterranean'', ''colorful'']\<rparr>"

definition vegetable_frittata :: SuggestedRecipe where
  "vegetable_frittata = \<lparr>
     s_name = ''Rustic Vegetable Frittata'',
     s_description = ''A protein-packed frittata featuring your fresh ingredients'',
     s_ingredients = [
       ''8 large eggs'',
       ''vegetables from your list, chopped'',
       ''cheese (optional)'',
       ''olive oil or butter'',
       ''onion, diced'',
       ''herbs (parsley, chives)'',
       ''salt and pepper''],
     s_instructions = [
       ''Preheat oven to 375'' @ [CHR 0xB0] @ ''F (190'' @ [CHR 0xB0] @ ''C)'',
       ''Heat oil in an oven-safe skillet over medium heat'',
       ''Saut'' @ [CHR 0xE9] @ '' onion and harder vegetables until softened'',
       ''Beat eggs with salt, pepper, and herbs'',
       ''Pour eggs over vegetables in the skillet'',
       ''Cook for 3-4 minutes until edges start to set'',
       ''Sprinkle with cheese if using'',
       ''Transfer to oven and bake for 12-15 minutes until set'',
       ''Let cool slightly before slicing and serving''],
     s_cuisineType = ''Italian'',
     s_preparationTime = 25,
     s_servings = 6,
     s_difficulty = Easy,
     s_tags = [''eggs'', ''protein-rich'', ''brunch'', ''versatile'']\<rparr>"

definition triggeredSuggestions :: "string \<Rightarrow> SuggestedRecipe list" where
  \<comment> \<open>The first half of \<open>generateSmartSuggestions\<close>: the array \<open>suggestions\<close> after the
      five ingredient-triggered \<open>push\<close> blocks.\<close>
  "triggeredSuggestions ingredients =
     (let ingredientList = map trim (split_on (CHR '','') (toLowerCase ingredients))
      in (if list_ex (\<lambda>i. str_includes i ''chicken'') ingredientList
          then [chicken_skillet] else [])
       @ (if list_ex (\<lambda>i. str_includes i ''pasta'' \<or> str_includes i ''spaghetti'' \<or> str_includes i ''noodle'')
               ingredientList
          then [garden_pasta] else [])
       @ (if list_ex (\<lambda>i. str_includes i ''rice'') ingredientList
          then [rice_pilaf] else [])
       @ (if list_ex (\<lambda>i. list_ex (\<lambda>veg. str_includes i veg)
               [''tomato'', ''onion'', ''carrot'', ''bell pepper'', ''zucchini'', ''mushroom''])
               ingredientList
          then [vegetable_medley] else [])
       @ (if list_ex (\<lambda>i. str_includes i ''egg'') ingredientList
          then [vegetable_frittata] else []))"

definition is_vegetarian :: "SuggestedRecipe \<Rightarrow> bool" where
  \<comment> \<open>The predicate of the vegetarian filter; \<open>tags.includes\<close> is array membership.\<close>
  "is_vegetarian s =
     (''vegetarian'' \<in> set (s_tags s) \<or>
      \<not> list_ex (\<lambda>ing. str_includes (toLowerCase ing) ''chicken''
                         \<or> str_includes (toLowerCase ing) ''meat''
                         \<or> str_includes (toLowerCase ing) ''fish'') (s_ingredients s))"

definition filterByPreferences :: "string \<Rightarrow> SuggestedRecipe list \<Rightarrow> SuggestedRecipe list" where
  \<comment> \<open>The second half: \<open>filteredSuggestions\<close> after the three preference filters.\<close>
  "filterByPreferences preferences suggestions =
     (let prefs = toLowerCase preferences;
          f1 = (if str_includes prefs ''vegetarian''
                then filter is_vegetarian suggestions else suggestions);
          f2 = (if str_includes prefs ''quick'' \<or> str_includes prefs ''30 min'' \<or> str_includes prefs ''fast''
                then filter (\<lambda>s. s_preparationTime s \<le> 30) f1 else f1);
          f3 = (if str_includes prefs ''easy''
                then filter (\<lambda>s. s_difficulty s = Easy) f2 else f2)
      in f3)"

definition slice0 :: "nat \<Rightarrow> 'a list \<Rightarrow> 'a list" where
  \<comment> \<open>\<open>xs.slice(0, k)\<close> for a natural number \<open>k\<close>: the first \<open>k\<close> elements, or all
      of \<open>xs\<close> when it has fewer.\<close>
  "slice0 k xs = take k xs"

definition generateSmartSuggestions :: "string \<Rightarrow> string \<Rightarrow> SuggestedRecipe list" where
  "generateSmartSuggestions ingredients preferences =
     (let filteredSuggestions = filterByPreferences preferences (triggeredSuggestions ingredients)
      in slice0 (min 4 (max 2 (length filteredSuggestions))) filteredSuggestions)"

section \<open>Recipes and the in-memory store\<close>

datatype RecipeStatus = Favorite | ToTry | Made

record RecipeMetadata =
  cuisineType :: string
  preparationTime :: int
  servings :: int
  difficulty :: Difficulty
  tags :: "string list"

text \<open>
  The field \<open>id\<close> of the source is \<open>rid\<close> here (\<open>id\<close> is the identity function of HOL).
  A \<open>Date\<close> is its time value, the milliseconds since the epoch; the source never
  mutates a \<open>Date\<close> or one of the string arrays of a recipe, so they are values.
  Values are read at the types the source declares: a status is one of the three of
  \<open>RecipeStatus\<close>, a difficulty one of the three levels, a number an integer. In the
  form data and in the filters the field names of the source carry a prefix, as two
  records cannot share a field name.
\<close>

record Recipe =
  rid :: string
  name :: string
  ingredients :: "string list"
  instructions :: "string list"
  metadata :: RecipeMetadata
  status :: RecipeStatus
  createdAt :: int
  updatedAt :: int

record RecipeFormData =
  f_name :: string
  f_ingredients :: string
  f_instructions :: string
  f_cuisineType :: string
  f_preparationTime :: int
  f_servings :: int
  f_difficulty :: Difficulty
  f_tags :: string

record SearchFilters =
  query :: string
  q_cuisineType :: "string option"
  q_status :: "RecipeStatus option"
  q_maxPrepTime :: "int option"  \<comment> \<open>\<open>None\<close>: \<open>undefined\<close>, or the \<open>NaN\<close> of \<open>parseInt\<close>\<close>

text \<open>
  Recipes are JavaScript objects: the module-level array \<open>recipes\<close> holds references,
  and \<open>updateStatus\<close> writes through one. The store is therefore a heap of recipe
  objects, the array of their addresses, and the next address \<open>new\<close> hands out.

  Arrays are objects too. The module-level array is one object for the whole life of
  the module: \<open>push\<close>, \<open>splice\<close> and the assignment to an index change it in place,
  and the variable \<open>recipes\<close> is never assigned again. Its elements are the field
  \<open>recipes\<close> of the state. The arrays that \<open>getAll\<close> makes are further objects, kept
  in \<open>copies\<close> under their numbers. A caller holds a reference to an array: to the
  module's own one, or to a copy.
\<close>

type_synonym addr = nat


record store =
  heap :: "addr \<Rightarrow> Recipe"
  recipes :: "addr list"
  next_addr :: addr
  copies :: "nat \<Rightarrow> addr list"
  next_copy :: nat



definition contents :: "store \<Rightarrow> Recipe list" where
  \<comment> \<open>The records of the store, in the order of the array.\<close>
  "contents st = map (heap st) (recipes st)"

text \<open>What an operation reads from outside: the clock and the random number generator.\<close>

record env =
  clock :: int      \<comment> \<open>the time value of \<open>new Date()\<close>\<close>
  id_clock :: int   \<comment> \<open>\<open>Date.now()\<close> inside \<open>generateId\<close>\<close>
  random36 :: string  \<comment> \<open>\<open>Math.random().toString(36).substr(2, 9)\<close>\<close>

definition sample_1 :: Recipe where
  "sample_1 = \<lparr>
     rid = ''1'',
     name = ''Spaghetti Carbonara'',
     ingredients = [''400g spaghetti'', ''200g pancetta'', ''4 eggs'', ''100g parmesan'',
       ''black pepper''],
     instructions = [
       ''Cook spaghetti in salted water until al dente'',
       ''Fry pancetta until crispy'',
       ''Beat eggs with parmesan and pepper'',
       ''Mix hot pasta with egg mixture off heat'',
       ''Add pancetta and serve immediately''],
     metadata = \<lparr>
       cuisineType = ''Italian'',
       preparationTime = 30,
       servings = 4,
       difficulty = Medium,
       tags = [''pasta'', ''quick'', ''comfort-food'']\<rparr>,
     status = Favorite,
     createdAt = 1705276800000,
     updatedAt = 1705276800000\<rparr>"

definition sample_2 :: Recipe where
  "sample_2 = \<lparr>
     rid = ''2'',
     name = ''Chicken Teriyaki'',
     ingredients = [''2 chicken breasts'', ''3 tbsp soy sauce'', ''2 tbsp honey'',
       ''1 tbsp rice vinegar'', ''ginger'', ''garlic''],
     instructions = [
       ''Cut chicken into bite-sized pieces'',
       ''Make teriyaki sauce with soy sauce, honey, vinegar'',
       ''Cook chicken in pan until golden'',
       ''Add sauce and simmer until glazed'',
       ''Serve with rice and vegetables''],
     metadata = \<lparr>
       cuisineType = ''Japanese'',
       preparationTime = 25,
       servings = 2,
       difficulty = Easy,
       tags = [''chicken'', ''asian'', ''healthy'']\<rparr>,
     status = Made,
     createdAt = 1704844800000,
     updatedAt = 1705708800000\<rparr>"

definition initial_store :: store where
  \<comment> \<open>The sample data the module starts with; the dates are 2024-01-15, 2024-01-10 and
      2024-01-20, midnight UTC. The cells from \<open>next_addr\<close> on are not allocated yet:
      what they hold is never read.\<close>
  "initial_store = \<lparr>
     heap = (\<lambda>a. if a = 0 then sample_1 else sample_2),
     recipes = [0, 1],
     next_addr = 2,
     copies = (\<lambda>n. []),
     next_copy = 0\<rparr>"

function dec :: "int \<Rightarrow> string" where
  \<comment> \<open>\<open>n.toString()\<close> of an integer.\<close>
  "dec n = (if n < 0 then CHR ''-'' # dec (- n)
            else if n < 10 then [''0123456789'' ! nat n]
            else dec (n div 10) @ [''0123456789'' ! nat (n mod 10)])"
  by pat_completeness auto
termination
  by (relation "measure (\<lambda>n. if n < 0 then nat (- n) + 1 else nat n)") auto

declare dec.simps [simp del]

definition generateId :: "env \<Rightarrow> string" where
  "generateId e = dec (id_clock e) @ random36 e"

fun findIndex :: "('a \<Rightarrow> bool) \<Rightarrow> 'a list \<Rightarrow> nat option" where
  \<comment> \<open>\<open>None\<close> is the \<open>-1\<close> of the source.\<close>
  "findIndex P [] = None"
| "findIndex P (x # xs) = (if P x then Some 0 else map_option Suc (findIndex P xs))"

definition has_id :: "store \<Rightarrow> string \<Rightarrow> addr \<Rightarrow> bool" where
  \<comment> \<open>The callback \<open>r => r.id === id\<close>, on a reference.\<close>
  "has_id st i a = (rid (heap st a) = i)"

definition parse_entries :: "char \<Rightarrow> string \<Rightarrow> string list" where
  \<comment> \<open>\<open>s.split(sep).map(i => i.trim()).filter(i => i.length > 0)\<close>\<close>
  "parse_entries sep s = filter (\<lambda>i. 0 < length i) (map trim (split_on sep s))"

definition convertFormDataToRecipe ::
  "RecipeFormData \<Rightarrow> string option \<Rightarrow> env \<Rightarrow> store \<Rightarrow> Recipe" where
  \<comment> \<open>The optional \<open>id\<close> is falsy when it is missing or the empty string. A found
      record's \<open>createdAt\<close> is a \<open>Date\<close> object, hence truthy.\<close>
  "convertFormDataToRecipe formData ido e st =
     (let now = clock e
      in \<lparr>rid = (case ido of
                   None \<Rightarrow> generateId e
                 | Some i \<Rightarrow> if i \<noteq> [] then i else generateId e),
          name = trim (f_name formData),
          ingredients = parse_entries (CHR '','') (f_ingredients formData),
          instructions = parse_entries (CHR 0x0A) (f_instructions formData),
          metadata = \<lparr>
            cuisineType = trim (f_cuisineType formData),
            preparationTime = f_preparationTime formData,
            servings = f_servings formData,
            difficulty = f_difficulty formData,
            tags = parse_entries (CHR '','') (f_tags formData)\<rparr>,
          status = ToTry,
          createdAt = (case ido of
                         None \<Rightarrow> now
                       | Some i \<Rightarrow>
                           if i \<noteq> []
                           then (case find (has_id st i) (recipes st) of
                                   None \<Rightarrow> now
                                 | Some a \<Rightarrow> createdAt (heap st a))
                           else now),
          updatedAt = now\<rparr>)"


definition getById :: "string \<Rightarrow> store \<Rightarrow> addr option" where
  "getById i st = find (has_id st i) (recipes st)"

definition create :: "RecipeFormData \<Rightarrow> env \<Rightarrow> store \<Rightarrow> addr \<times> store" where
  "create formData e st =
     (let newRecipe = convertFormDataToRecipe formData None e st;
          a = next_addr st
      in (a, st\<lparr>heap := (heap st)(a := newRecipe),
                recipes := recipes st @ [a],
                next_addr := Suc a\<rparr>))"

definition update :: "string \<Rightarrow> RecipeFormData \<Rightarrow> env \<Rightarrow> store \<Rightarrow> addr option \<times> store" where
  "update i formData e st =
     (case findIndex (has_id st i) (recipes st) of
        None \<Rightarrow> (None, st)
      | Some index \<Rightarrow>
          (let updatedRecipe = convertFormDataToRecipe formData (Some i) e st;
               a = next_addr st
           in (Some a, st\<lparr>heap := (heap st)(a := updatedRecipe),
                          recipes := (recipes st)[index := a],
                          next_addr := Suc a\<rparr>)))"

definition delete :: "string \<Rightarrow> store \<Rightarrow> bool \<times> store" where
  \<comment> \<open>\<open>recipes.splice(index, 1)\<close> removes the element at \<open>index\<close>.\<close>
  "delete i st =
     (case findIndex (has_id st i) (recipes st) of
        None \<Rightarrow> (False, st)
      | Some index \<Rightarrow>
          (True, st\<lparr>recipes := take index (recipes st) @ drop (Suc index) (recipes st)\<rparr>))"

definition updateStatus :: "string \<Rightarrow> RecipeStatus \<Rightarrow> env \<Rightarrow> store \<Rightarrow> addr option \<times> store" where
  \<comment> \<open>The two assignments write into the object found, in place.\<close>
  "updateStatus i s e st =
     (case find (has_id st i) (recipes st) of
        None \<Rightarrow> (None, st)
      | Some a \<Rightarrow>
          (Some a, st\<lparr>heap := (heap st)(a := (heap st a)\<lparr>status := s, updatedAt := clock e\<rparr>)\<rparr>))"

definition matches_query :: "string \<Rightarrow> Recipe \<Rightarrow> bool" where
  "matches_query q recipe =
     (str_includes (toLowerCase (name recipe)) q \<or>
      list_ex (\<lambda>ingredient. str_includes (toLowerCase ingredient) q) (ingredients recipe) \<or>
      list_ex (\<lambda>tag. str_includes (toLowerCase tag) q) (tags (metadata recipe)) \<or>
      str_includes (toLowerCase (cuisineType (metadata recipe))) q)"

definition search :: "SearchFilters \<Rightarrow> store \<Rightarrow> addr list" where
  \<comment> \<open>A criterion is applied when it is truthy: a non-empty string, a status, a number
      other than 0. The function reads the store and writes nothing; the array it
      returns is given by its elements.\<close>
  "search filters st =
     (let h = heap st;
          r0 = recipes st;
          r1 = (if query filters \<noteq> []
                then filter (\<lambda>a. matches_query (toLowerCase (query filters)) (h a)) r0
                else r0);
          r2 = (case q_cuisineType filters of
                  None \<Rightarrow> r1
                | Some c \<Rightarrow>
                    if c \<noteq> []
                    then filter (\<lambda>a. toLowerCase (cuisineType (metadata (h a))) = toLowerCase c) r1
                    else r1);
          r3 = (case q_status filters of
                  None \<Rightarrow> r2
                | Some s \<Rightarrow> filter (\<lambda>a. status (h a) = s) r2);
          r4 = (case q_maxPrepTime filters of
                  None \<Rightarrow> r3
                | Some m \<Rightarrow>
                    if m \<noteq> 0
                    then filter (\<lambda>a. preparationTime (metadata (h a)) \<le> m) r3
                    else r3)
      in r4)"

section \<open>The request handlers of the recipes route\<close>

text \<open>
  A response is its HTTP status with the \<open>data\<close> of a success or the \<open>error\<close> text of a
  failure. A request body is a JSON object: each text field and the status may be
  missing. The body is read at the declared types otherwise, so a status that is
  present is truthy.
\<close>

datatype 'a response = Success nat 'a | Failure nat string

record RequestBody =
  b_name :: "string option"
  b_ingredients :: "string option"
  b_instructions :: "string option"
  b_cuisineType :: "string option"
  b_preparationTime :: int
  b_servings :: int
  b_difficulty :: Difficulty
  b_tags :: "string option"
  b_status :: "RecipeStatus option"

definition falsy :: "string option \<Rightarrow> bool" where
  \<comment> \<open>\<open>!x\<close> for a string that may be missing.\<close>
  "falsy x = (case x of None \<Rightarrow> True | Some s \<Rightarrow> s = [])"

definition body_form :: "RequestBody \<Rightarrow> RecipeFormData option" where
  \<comment> \<open>The body as form data. \<open>convertFormDataToRecipe\<close> calls \<open>trim\<close> or \<open>split\<close> on the
      five text fields: when one is missing it throws a \<open>TypeError\<close> (\<open>None\<close> here), which
      the handler's \<open>catch\<close> turns into the status 500.\<close>
  "body_form body =
     (case (b_name body, b_ingredients body, b_instructions body, b_cuisineType body,
            b_tags body) of
        (Some n, Some ing, Some ins, Some c, Some t) \<Rightarrow>
          Some \<lparr>f_name = n, f_ingredients = ing, f_instructions = ins, f_cuisineType = c,
                f_preparationTime = b_preparationTime body, f_servings = b_servings body,
                f_difficulty = b_difficulty body, f_tags = t\<rparr>
      | _ \<Rightarrow> None)"


definition PUT :: "string option \<Rightarrow> RequestBody \<Rightarrow> env \<Rightarrow> store \<Rightarrow> Recipe response \<times> store" where
  \<comment> \<open>A status update is a body with a status and without a (truthy) name. In a full
      update \<open>recipeStorage.update\<close> looks the id up before it converts the form data, so
      an absent id gives 404 also when the conversion would throw.\<close>
  "PUT recipeId body e st =
     (if falsy recipeId
      then (Failure 400 ''Recipe ID is required'', st)
      else (case recipeId of
        None \<Rightarrow> (Failure 400 ''Recipe ID is required'', st)
      | Some i \<Rightarrow>
         (case (if falsy (b_name body) then b_status body else None) of
            Some s \<Rightarrow>
              (case updateStatus i s e st of
                 (None, st') \<Rightarrow> (Failure 404 ''Recipe not found'', st')
               | (Some a, st') \<Rightarrow> (Success 200 (heap st' a), st'))
          | None \<Rightarrow>
              if falsy (map_option trim (b_name body))
              then (Failure 400 ''Recipe name is required'', st)
              else (case body_form body of
                      None \<Rightarrow>
                        (if findIndex (has_id st i) (recipes st) = None
                         then (Failure 404 ''Recipe not found'', st)
                         else (Failure 500 ''Failed to update recipe'', st))
                    | Some formData \<Rightarrow>
                        (case update i formData e st of
                           (None, st') \<Rightarrow> (Failure 404 ''Recipe not found'', st')
                         | (Some a, st') \<Rightarrow> (Success 200 (heap st' a), st'))))))"

definition DELETE :: "string option \<Rightarrow> store \<Rightarrow> string response \<times> store" where
  "DELETE recipeId st =
     (if falsy recipeId
      then (Failure 400 ''Recipe ID is required'', st)
      else (case recipeId of
        None \<Rightarrow> (Failure 400 ''Recipe ID is required'', st)
      | Some i \<Rightarrow>
         (case delete i st of
            (False, st') \<Rightarrow> (Failure 404 ''Recipe not found'', st')
          | (True, st') \<Rightarrow> (Success 200 i, st'))))"

section \<open>Runs of the store\<close>

datatype op =
    Create RecipeFormData env
  | Update string RecipeFormData env
  | Delete string
  | UpdateStatus string RecipeStatus env

fun exec :: "op \<Rightarrow> store \<Rightarrow> store" where
  "exec (Create formData e) st = snd (create formData e st)"
| "exec (Update i formData e) st = snd (update i formData e st)"
| "exec (Delete i) st = snd (delete i st)"
| "exec (UpdateStatus i s e) st = snd (updateStatus i s e st)"


fun is_status_change :: "op \<Rightarrow> bool" where
  "is_status_change (UpdateStatus i s e) = True"
| "is_status_change _ = False"





section \<open>The parsing of form text, as the specification words it\<close>





section \<open>The filter criteria, as the specification words them\<close>

text \<open>
  A criterion is provided when the source's test of it succeeds. A recipe satisfies a
  filter specification when it meets every criterion that is provided.
\<close>

definition provides_query :: "SearchFilters \<Rightarrow> bool" where
  "provides_query f = (query f \<noteq> [])"

definition provides_cuisine :: "SearchFilters \<Rightarrow> bool" where
  "provides_cuisine f = (case q_cuisineType f of None \<Rightarrow> False | Some c \<Rightarrow> c \<noteq> [])"

definition provides_status :: "SearchFilters \<Rightarrow> bool" where
  "provides_status f = (case q_status f of None \<Rightarrow> False | Some s \<Rightarrow> True)"

definition provides_maxPrepTime :: "SearchFilters \<Rightarrow> bool" where
  "provides_maxPrepTime f = (case q_maxPrepTime f of None \<Rightarrow> False | Some m \<Rightarrow> m \<noteq> 0)"

definition satisfies :: "SearchFilters \<Rightarrow> Recipe \<Rightarrow> bool" where
  "satisfies f r =
     ((\<not> provides_query f \<or> matches_query (toLowerCase (query f)) r) \<and>
      (\<not> provides_cuisine f \<or>
         map_option toLowerCase (q_cuisineType f) = Some (toLowerCase (cuisineType (metadata r)))) \<and>
      (\<not> provides_status f \<or> q_status f = Some (status r)) \<and>
      (\<not> provides_maxPrepTime f \<or>
         (case q_maxPrepTime f of None \<Rightarrow> False | Some m \<Rightarrow> preparationTime (metadata r) \<le> m)))"

definition extends :: "SearchFilters \<Rightarrow> SearchFilters \<Rightarrow> bool" where
  \<comment> \<open>\<open>extends f g\<close>: \<open>g\<close> provides every criterion that \<open>f\<close> provides, with the same value.\<close>
  "extends f g =
     ((\<not> provides_query f \<or> query g = query f) \<and>
      (\<not> provides_cuisine f \<or> q_cuisineType g = q_cuisineType f) \<and>
      (\<not> provides_status f \<or> q_status g = q_status f) \<and>
      (\<not> provides_maxPrepTime f \<or> q_maxPrepTime g = q_maxPrepTime f))"

definition adds_criterion :: "SearchFilters \<Rightarrow> SearchFilters \<Rightarrow> bool" where
  \<comment> \<open>\<open>g\<close> provides a criterion that \<open>f\<close> does not.\<close>
  "adds_criterion f g =
     ((provides_query g \<and> \<not> provides_query f) \<or>
      (provides_cuisine g \<and> \<not> provides_cuisine f) \<or>
      (provides_status g \<and> \<not> provides_status f) \<or>
      (provides_maxPrepTime g \<and> \<not> provides_maxPrepTime f))"

section \<open>Example inputs\<close>

definition tacos :: RecipeFormData where
  \<comment> \<open>The form input of the end-to-end example of the specification.\<close>
  "tacos = \<lparr>
     f_name = ''Tacos'',
     f_ingredients = ''beef, tortilla, cheese'',
     f_instructions = ''cook beef'' @ [CHR 0x0A] @ ''assemble'',
     f_cuisineType = ''Mexican'',
     f_preparationTime = 20,
     f_servings = 2,
     f_difficulty = Easy,
     f_tags = ''quick''\<rparr>"

definition tacos_body :: RequestBody where
  \<comment> \<open>The same input as a request body, with a status beside the name.\<close>
  "tacos_body = \<lparr>
     b_name = Some ''Tacos'',
     b_ingredients = Some ''beef, tortilla, cheese'',
     b_instructions = Some (''cook beef'' @ [CHR 0x0A] @ ''assemble''),
     b_cuisineType = Some ''Mexican'',
     b_preparationTime = 20,
     b_servings = 2,
     b_difficulty = Easy,
     b_tags = Some ''quick'',
     b_status = Some Favorite\<rparr>"

definition made_body :: RequestBody where
  \<comment> \<open>A body with a status alone.\<close>
  "made_body = \<lparr>
     b_name = None,
     b_ingredients = None,
     b_instructions = None,
     b_cuisineType = None,
     b_preparationTime = 0,
     b_servings = 0,
     b_difficulty = Easy,
     b_tags = None,
     b_status = Some Made\<rparr>"


definition a_moment_later :: env where
  \<comment> \<open>An environment shortly after the latest date of the sample data.\<close>
  "a_moment_later = \<lparr>clock = 1705708800001, id_clock = 1705708800002, random36 = ''k3j9x0a1b''\<rparr>"

section \<open>What a status change leaves alone\<close>


section \<open>The creation time a store holds for an id\<close>



section \<open>Properties\<close>

subsection \<open>Strings\<close>

lemma starts_with_iff: "starts_with s q \<longleftrightarrow> (\<exists>b. s = q @ b)"
  by (induction s q rule: starts_with.induct) auto

lemma str_includes_iff: "str_includes s q \<longleftrightarrow> (\<exists>a b. s = a @ q @ b)"
proof (induction s)
  case Nil
  then show ?case by auto
next
  case (Cons c cs)
  show ?case
  proof
    assume "str_includes (c # cs) q"
    then consider "starts_with (c # cs) q" | "str_includes cs q" by auto
    then show "\<exists>a b. c # cs = a @ q @ b"
    proof cases
      case 1
      then obtain b where "c # cs = q @ b" by (auto simp: starts_with_iff)
      then have "c # cs = [] @ q @ b" by simp
      then show ?thesis by blast
    next
      case 2
      then obtain a b where "cs = a @ q @ b" using Cons.IH by auto
      then have "c # cs = (c # a) @ q @ b" by simp
      then show ?thesis by blast
    qed
  next
    assume "\<exists>a b. c # cs = a @ q @ b"
    then obtain a b where ab: "c # cs = a @ q @ b" by auto
    show "str_includes (c # cs) q"
    proof (cases a)
      case Nil
      with ab have "starts_with (c # cs) q" by (auto simp: starts_with_iff)
      then show ?thesis by simp
    next
      case (Cons x a')
      with ab have "cs = a' @ q @ b" by simp
      then have "str_includes cs q" using Cons.IH by blast
      then show ?thesis by simp
    qed
  qed
qed

lemma str_includes_toLowerCase:
  "str_includes s q \<Longrightarrow> str_includes (toLowerCase s) (toLowerCase q)"
  unfolding str_includes_iff toLowerCase_def
  by (metis map_append)

subsection \<open>The size of the local suggestion list\<close>

lemmas suggestion_defs =
  generateSmartSuggestions_def filterByPreferences_def triggeredSuggestions_def is_vegetarian_def
  toLowerCase_def lower_char_def is_upper_def trim_def is_space_def slice0_def

lemma slice0_min_max: "slice0 (min 4 (max 2 (length xs))) xs = take 4 xs"
  by (cases "4 \<le> length xs") (simp_all add: slice0_def min_def max_def)

text \<open>
  C3, as the code has it. With \<open>n\<close> the number of triggered candidates that pass the
  preference filters, the generator returns the first \<open>min 4 n\<close> of them: \<open>slice\<close> cannot
  return more elements than the array has, so the lower bound 2 of the source has no
  effect. The size is \<open>min 4 (max 2 n)\<close> from \<open>n = 2\<close> on, and the result is empty when
  \<open>n = 0\<close>.
\<close>

theorem generateSmartSuggestions_size:
  "generateSmartSuggestions ings prefs
     = take 4 (filterByPreferences prefs (triggeredSuggestions ings))
   \<and> length (generateSmartSuggestions ings prefs)
     = min 4 (length (filterByPreferences prefs (triggeredSuggestions ings)))
   \<and> (2 \<le> length (filterByPreferences prefs (triggeredSuggestions ings)) \<longrightarrow>
        length (generateSmartSuggestions ings prefs)
        = min 4 (max 2 (length (filterByPreferences prefs (triggeredSuggestions ings)))))
   \<and> (length (filterByPreferences prefs (triggeredSuggestions ings)) = 0 \<longrightarrow>
        generateSmartSuggestions ings prefs = [])"
  by (auto simp add: generateSmartSuggestions_def Let_def slice0_min_max)

theorem generateSmartSuggestions_size_witness:
  "2 \<le> length (filterByPreferences '''' (triggeredSuggestions ''chicken, rice''))
   \<and> length (generateSmartSuggestions ''chicken, rice'' '''') = 2
   \<and> length (filterByPreferences ''easy'' (triggeredSuggestions ''rice'')) = 0
   \<and> generateSmartSuggestions ''rice'' ''easy'' = []"
  using generateSmartSuggestions_size [of "''chicken, rice''" "''''"]
    generateSmartSuggestions_size [of "''rice''" "''easy''"]
  by (simp add: filterByPreferences_def triggeredSuggestions_def rice_pilaf_def
      toLowerCase_def lower_char_def is_upper_def trim_def is_space_def)

text \<open>
  C3 as stated fails where exactly one candidate is left: for the ingredients
  \<open>chicken\<close> and no preference, one candidate is triggered and returned, and
  \<open>min 4 (max 2 1)\<close> is 2.
\<close>

theorem generateSmartSuggestions_size_counterexample:
  "0 < length (filterByPreferences '''' (triggeredSuggestions ''chicken''))
   \<and> length (generateSmartSuggestions ''chicken'' '''')
     \<noteq> min 4 (max 2 (length (filterByPreferences '''' (triggeredSuggestions ''chicken''))))"
  by (simp add: suggestion_defs)

subsection \<open>Narrowing by preferences\<close>

lemma lower_tokens:
  "toLowerCase ''vegetarian'' = ''vegetarian''"
  "toLowerCase ''easy'' = ''easy''"
  "toLowerCase ''quick'' = ''quick''"
  "toLowerCase ''chicken'' = ''chicken''"
  "toLowerCase ''meat'' = ''meat''"
  "toLowerCase ''fish'' = ''fish''"
  by (simp_all add: toLowerCase_def lower_char_def is_upper_def)

lemma filterByPreferences_narrow:
  assumes "str_includes (toLowerCase prefs) ''vegetarian''"
    and "str_includes (toLowerCase prefs) ''easy''"
    and "str_includes (toLowerCase prefs) ''quick''"
    and "s \<in> set (generateSmartSuggestions ings prefs)"
  shows "is_vegetarian s \<and> s_preparationTime s \<le> 30 \<and> s_difficulty s = Easy"
proof -
  have "set (generateSmartSuggestions ings prefs)
          \<subseteq> set (filterByPreferences prefs (triggeredSuggestions ings))"
    by (simp add: generateSmartSuggestions_def Let_def slice0_def set_take_subset)
  with assms(4) have "s \<in> set (filterByPreferences prefs (triggeredSuggestions ings))"
    by blast
  with assms(1-3) show ?thesis
    by (simp add: filterByPreferences_def Let_def)
qed

lemma is_vegetarian_raw:
  assumes "is_vegetarian s" and "ing \<in> set (s_ingredients s)"
    and "''vegetarian'' \<notin> set (s_tags s)"
  shows "\<not> str_includes ing ''chicken'' \<and> \<not> str_includes ing ''meat'' \<and> \<not> str_includes ing ''fish''"
proof -
  from assms have low:
    "\<not> str_includes (toLowerCase ing) ''chicken''"
    "\<not> str_includes (toLowerCase ing) ''meat''"
    "\<not> str_includes (toLowerCase ing) ''fish''"
    by (auto simp: is_vegetarian_def list_ex_iff)
  show ?thesis
    using low str_includes_toLowerCase [of ing "''chicken''"]
      str_includes_toLowerCase [of ing "''meat''"]
      str_includes_toLowerCase [of ing "''fish''"]
    by (auto simp: lower_tokens)
qed

text \<open>
  C4. When at least three templates are triggered and the preference text contains
  \<open>vegetarian\<close>, \<open>easy\<close> and \<open>quick\<close>, every candidate returned is Easy, takes at most
  30 minutes, and is tagged vegetarian or has no ingredient line containing \<open>chicken\<close>,
  \<open>meat\<close> or \<open>fish\<close>, in the line as written and in its lower-case form.
\<close>

theorem preference_narrowing:
  assumes "3 \<le> length (triggeredSuggestions ings)"
    and "str_includes prefs ''vegetarian''"
    and "str_includes prefs ''easy''"
    and "str_includes prefs ''quick''"
    and "s \<in> set (generateSmartSuggestions ings prefs)"
  shows "s_difficulty s = Easy \<and> s_preparationTime s \<le> 30
         \<and> (''vegetarian'' \<in> set (s_tags s)
            \<or> (\<forall>ing \<in> set (s_ingredients s).
                  \<not> str_includes ing ''chicken'' \<and> \<not> str_includes ing ''meat''
                  \<and> \<not> str_includes ing ''fish''
                  \<and> \<not> str_includes (toLowerCase ing) ''chicken''
                  \<and> \<not> str_includes (toLowerCase ing) ''meat''
                  \<and> \<not> str_includes (toLowerCase ing) ''fish''))"
proof -
  have low: "str_includes (toLowerCase prefs) ''vegetarian''"
    "str_includes (toLowerCase prefs) ''easy''"
    "str_includes (toLowerCase prefs) ''quick''"
    using assms(2-4) str_includes_toLowerCase [of prefs] by (force simp: lower_tokens)+
  from filterByPreferences_narrow [OF low assms(5)]
  have v: "is_vegetarian s" and rest: "s_preparationTime s \<le> 30" "s_difficulty s = Easy"
    by auto
  show ?thesis
    using rest v is_vegetarian_raw [OF v]
    by (auto simp: is_vegetarian_def list_ex_iff)
qed

theorem preference_narrowing_witness:
  "3 \<le> length (triggeredSuggestions ''pasta, tomato, egg, chicken'')
   \<and> str_includes ''vegetarian, easy, quick'' ''vegetarian''
   \<and> str_includes ''vegetarian, easy, quick'' ''easy''
   \<and> str_includes ''vegetarian, easy, quick'' ''quick''
   \<and> vegetable_frittata
       \<in> set (generateSmartSuggestions ''pasta, tomato, egg, chicken'' ''vegetarian, easy, quick'')
   \<and> s_difficulty vegetable_frittata = Easy \<and> s_preparationTime vegetable_frittata \<le> 30
   \<and> ''vegetarian'' \<notin> set (s_tags vegetable_frittata)
   \<and> ''olive oil or butter'' \<in> set (s_ingredients vegetable_frittata)
   \<and> \<not> str_includes ''olive oil or butter'' ''chicken''
   \<and> \<not> str_includes ''olive oil or butter'' ''meat''
   \<and> \<not> str_includes ''olive oil or butter'' ''fish''"
proof -
  have h1: "3 \<le> length (triggeredSuggestions ''pasta, tomato, egg, chicken'')"
    by (simp add: triggeredSuggestions_def toLowerCase_def lower_char_def is_upper_def
        trim_def is_space_def)
  have h2: "str_includes ''vegetarian, easy, quick'' ''vegetarian''" by simp
  have h3: "str_includes ''vegetarian, easy, quick'' ''easy''" by simp
  have h4: "str_includes ''vegetarian, easy, quick'' ''quick''" by simp
  have h5: "vegetable_frittata
       \<in> set (generateSmartSuggestions ''pasta, tomato, egg, chicken'' ''vegetarian, easy, quick'')"
    by (simp add: suggestion_defs chicken_skillet_def garden_pasta_def vegetable_medley_def
        vegetable_frittata_def)
  have h6: "''vegetarian'' \<notin> set (s_tags vegetable_frittata)"
    by (simp add: vegetable_frittata_def)
  have h7: "''olive oil or butter'' \<in> set (s_ingredients vegetable_frittata)"
    by (simp add: vegetable_frittata_def)
  show ?thesis
    using preference_narrowing [OF h1 h2 h3 h4 h5] h1 h2 h3 h4 h5 h6 h7 by blast
qed

subsection \<open>Search\<close>

lemmas provides_defs =
  provides_query_def provides_cuisine_def provides_status_def provides_maxPrepTime_def

lemma search_filter:
  "search f st = filter (\<lambda>a. satisfies f (heap st a)) (recipes st)"
  by (auto simp: search_def satisfies_def provides_defs Let_def
      split: option.splits intro: filter_cong)

lemma search_nothing_provided:
  assumes "\<not> provides_query f" "\<not> provides_cuisine f" "\<not> provides_status f"
    "\<not> provides_maxPrepTime f"
  shows "search f st = recipes st"
  using assms by (simp add: search_filter satisfies_def)

lemma extends_satisfies:
  "extends f g \<Longrightarrow> satisfies g r \<Longrightarrow> satisfies f r"
  by (auto simp: extends_def satisfies_def provides_defs split: option.splits)

lemma search_extends:
  assumes "extends f g"
  shows "search g st = filter (\<lambda>a. satisfies g (heap st a)) (search f st)"
proof -
  have "filter (\<lambda>a. satisfies g (heap st a)) (filter (\<lambda>a. satisfies f (heap st a)) (recipes st))
        = filter (\<lambda>a. satisfies g (heap st a)) (recipes st)"
    using extends_satisfies [OF assms] by (auto simp: filter_filter intro: filter_cong)
  then show ?thesis by (simp add: search_filter)
qed

text \<open>
  C2. With every criterion absent, \<open>search\<close> returns all the recipes of a non-empty
  store in their order. For every filter specification the result is a subsequence of
  the store's array, so the relative order is kept, and it holds exactly the recipes
  that satisfy the specification. \<open>search\<close> is a function of the store that returns
  the result only: the source writes neither to the array nor to a record.
\<close>

theorem search_all_and_order:
  "(query f = [] \<and> q_cuisineType f = None \<and> q_status f = None \<and> q_maxPrepTime f = None
      \<and> recipes st \<noteq> []
     \<longrightarrow> search f st = recipes st \<and> map (heap st) (search f st) = contents st)
   \<and> subseq (search g st) (recipes st)
   \<and> subseq (map (heap st) (search g st)) (contents st)
   \<and> search g st = filter (\<lambda>a. satisfies g (heap st a)) (recipes st)"
proof -
  have "search f st = recipes st"
    if "query f = []" "q_cuisineType f = None" "q_status f = None" "q_maxPrepTime f = None"
    using that by (intro search_nothing_provided) (simp_all add: provides_defs)
  moreover have "subseq (search g st) (recipes st)"
    by (simp add: search_filter)
  moreover have "subseq (map (heap st) (search g st)) (contents st)"
    unfolding contents_def search_filter by (intro subseq_map) simp
  ultimately show ?thesis
    by (simp add: contents_def search_filter)
qed

text \<open>
  C9. When a second filter specification provides every criterion of a first one with
  the same value, and one more, its result is a subsequence of the first one's, hence
  not longer.
\<close>

theorem search_monotonic:
  assumes "extends f g" and "adds_criterion f g"
  shows "length (search g st) \<le> length (search f st) \<and> subseq (search g st) (search f st)"
  using search_extends [OF assms(1), of st] by simp


lemmas store_eval_defs =
  search_def matches_query_def initial_store_def sample_1_def sample_2_def contents_def
  toLowerCase_def lower_char_def is_upper_def

theorem search_all_and_order_witness:
  "query \<lparr>query = [], q_cuisineType = None, q_status = None, q_maxPrepTime = None\<rparr> = []
   \<and> recipes initial_store \<noteq> []
   \<and> search \<lparr>query = [], q_cuisineType = None, q_status = None, q_maxPrepTime = None\<rparr>
        initial_store = [0, 1]
   \<and> map (heap initial_store)
        (search \<lparr>query = [], q_cuisineType = None, q_status = None, q_maxPrepTime = None\<rparr>
           initial_store) = [sample_1, sample_2]
   \<and> search \<lparr>query = ''CHICKEN'', q_cuisineType = Some ''japanese'', q_status = None,
          q_maxPrepTime = Some 25\<rparr> initial_store = [1]
   \<and> subseq
        (search \<lparr>query = ''CHICKEN'', q_cuisineType = Some ''japanese'', q_status = None,
           q_maxPrepTime = Some 25\<rparr> initial_store)
        (recipes initial_store)"
  using search_all_and_order
    [of "\<lparr>query = [], q_cuisineType = None, q_status = None, q_maxPrepTime = None\<rparr>"
        initial_store
        "\<lparr>query = ''CHICKEN'', q_cuisineType = Some ''japanese'', q_status = None,
          q_maxPrepTime = Some 25\<rparr>"]
  by (simp add: store_eval_defs)

theorem search_monotonic_witness:
  "extends \<lparr>query = [], q_cuisineType = None, q_status = None, q_maxPrepTime = Some 30\<rparr>
     \<lparr>query = [], q_cuisineType = None, q_status = Some Made, q_maxPrepTime = Some 30\<rparr>
   \<and> adds_criterion
     \<lparr>query = [], q_cuisineType = None, q_status = None, q_maxPrepTime = Some 30\<rparr>
     \<lparr>query = [], q_cuisineType = None, q_status = Some Made, q_maxPrepTime = Some 30\<rparr>
   \<and> search \<lparr>query = [], q_cuisineType = None, q_status = None, q_maxPrepTime = Some 30\<rparr>
        initial_store = [0, 1]
   \<and> search \<lparr>query = [], q_cuisineType = None, q_status = Some Made, q_maxPrepTime = Some 30\<rparr>
        initial_store = [1]
   \<and> length (search \<lparr>query = [], q_cuisineType = None, q_status = Some Made,
               q_maxPrepTime = Some 30\<rparr> initial_store)
     \<le> length (search \<lparr>query = [], q_cuisineType = None, q_status = None,
               q_maxPrepTime = Some 30\<rparr> initial_store)"
  using search_monotonic
    [of "\<lparr>query = [], q_cuisineType = None, q_status = None, q_maxPrepTime = Some 30\<rparr>"
        "\<lparr>query = [], q_cuisineType = None, q_status = Some Made, q_maxPrepTime = Some 30\<rparr>"
        initial_store]
  by (simp add: store_eval_defs extends_def adds_criterion_def provides_defs)

subsection \<open>Looking a record up, deleting, changing the status\<close>

lemmas sample_store_defs = initial_store_def sample_1_def sample_2_def contents_def has_id_def

lemma findIndex_None_iff: "findIndex P xs = None \<longleftrightarrow> (\<forall>x \<in> set xs. \<not> P x)"
  by (induction xs) auto

lemma findIndex_Some:
  "findIndex P xs = Some k \<Longrightarrow> k < length xs \<and> P (xs ! k) \<and> (\<forall>j < k. \<not> P (xs ! j))"
proof (induction xs arbitrary: k)
  case Nil
  then show ?case by simp
next
  case (Cons x xs)
  show ?case
  proof (cases "P x")
    case True
    with Cons.prems show ?thesis by simp
  next
    case False
    with Cons.prems obtain k' where k': "findIndex P xs = Some k'" "k = Suc k'"
      by auto
    from Cons.IH [OF k'(1)] False k'(2) show ?thesis
      by (auto simp: nth_Cons split: nat.splits)
  qed
qed

lemma find_findIndex: "find P xs = map_option (\<lambda>k. xs ! k) (findIndex P xs)"
  by (induction xs) (auto simp: option.map_comp comp_def)

lemma absent_iff:
  "i \<notin> set (map rid (contents st)) \<longleftrightarrow> findIndex (has_id st i) (recipes st) = None"
  unfolding findIndex_None_iff contents_def has_id_def by auto

lemma absent_find:
  "i \<notin> set (map rid (contents st)) \<longleftrightarrow> find (has_id st i) (recipes st) = None"
  unfolding absent_iff find_findIndex by simp

text \<open>
  C8. For an id that no record of the store has, \<open>delete\<close> returns \<open>false\<close>, which the
  handler answers with 404 \<open>Recipe not found\<close>, and the store is the one before the
  call: the same number of records, the same records, the same order.
\<close>

theorem delete_absent:
  assumes "i \<notin> set (map rid (contents st))"
  shows "delete i st = (False, st)
         \<and> contents (snd (delete i st)) = contents st
         \<and> length (recipes (snd (delete i st))) = length (recipes st)
         \<and> DELETE (Some i) st
             = (if i = [] then Failure 400 ''Recipe ID is required''
                else Failure 404 ''Recipe not found'', st)"
proof -
  from assms have "findIndex (has_id st i) (recipes st) = None"
    unfolding absent_iff .
  then have d: "delete i st = (False, st)"
    by (simp add: delete_def)
  then show ?thesis
    by (simp add: DELETE_def falsy_def)
qed

theorem delete_absent_witness:
  "''3'' \<notin> set (map rid (contents initial_store))
   \<and> delete ''3'' initial_store = (False, initial_store)
   \<and> contents (snd (delete ''3'' initial_store)) = [sample_1, sample_2]
   \<and> DELETE (Some ''3'') initial_store = (Failure 404 ''Recipe not found'', initial_store)"
proof -
  have h: "''3'' \<notin> set (map rid (contents initial_store))"
    by (simp add: contents_def initial_store_def sample_1_def sample_2_def)
  have c: "contents initial_store = [sample_1, sample_2]"
    by (simp add: contents_def initial_store_def)
  show ?thesis
    using delete_absent [OF h] h c by simp
qed

lemma map_fun_upd_distinct:
  assumes "distinct xs" and "k < length xs"
  shows "map (f(xs ! k := v)) xs = (map f xs)[k := v]"
proof (rule nth_equalityI)
  show "length (map (f(xs ! k := v)) xs) = length ((map f xs)[k := v])" by simp
next
  fix j assume "j < length (map (f(xs ! k := v)) xs)"
  then have j: "j < length xs" by simp
  show "map (f(xs ! k := v)) xs ! j = (map f xs)[k := v] ! j"
  proof (cases "j = k")
    case True
    with j show ?thesis by simp
  next
    case False
    with assms j have "xs ! j \<noteq> xs ! k" by (simp add: nth_eq_iff_index_eq)
    with False j show ?thesis by simp
  qed
qed

text \<open>
  C7. When a record has the id, \<open>updateStatus\<close> writes the status and \<open>updatedAt\<close> of the
  first such record and nothing else: its id, name, ingredients, instructions, metadata
  and \<open>createdAt\<close> are the ones before, every other object is unchanged and so is the
  array; as the references of the array are distinct, the records of the store change at
  that one position only. For an absent id it returns \<open>null\<close> and leaves the store
  alone, and the handler answers a status-only body with 404 \<open>Recipe not found\<close>.
\<close>

theorem updateStatus_frame:
  "(\<forall>a. find (has_id st i) (recipes st) = Some a \<longrightarrow>
      fst (updateStatus i s e st) = Some a
      \<and> rid (heap st a) = i
      \<and> heap (snd (updateStatus i s e st)) a
          = (heap st a)\<lparr>status := s, updatedAt := clock e\<rparr>
      \<and> rid (heap (snd (updateStatus i s e st)) a) = rid (heap st a)
      \<and> name (heap (snd (updateStatus i s e st)) a) = name (heap st a)
      \<and> ingredients (heap (snd (updateStatus i s e st)) a) = ingredients (heap st a)
      \<and> instructions (heap (snd (updateStatus i s e st)) a) = instructions (heap st a)
      \<and> metadata (heap (snd (updateStatus i s e st)) a) = metadata (heap st a)
      \<and> createdAt (heap (snd (updateStatus i s e st)) a) = createdAt (heap st a)
      \<and> (\<forall>b. b \<noteq> a \<longrightarrow> heap (snd (updateStatus i s e st)) b = heap st b)
      \<and> recipes (snd (updateStatus i s e st)) = recipes st
      \<and> (distinct (recipes st) \<longrightarrow>
           (\<exists>k. findIndex (has_id st i) (recipes st) = Some k \<and>
                contents (snd (updateStatus i s e st))
                  = (contents st)[k := (contents st ! k)\<lparr>status := s, updatedAt := clock e\<rparr>])))
   \<and> (i \<notin> set (map rid (contents st)) \<longrightarrow>
        updateStatus i s e st = (None, st)
        \<and> (i \<noteq> [] \<and> falsy (b_name body) \<and> b_status body = Some s \<longrightarrow>
             PUT (Some i) body e st = (Failure 404 ''Recipe not found'', st)))"
proof (intro conjI allI impI)
  fix a assume f: "find (has_id st i) (recipes st) = Some a"
  let ?st' = "snd (updateStatus i s e st)"
  have st': "?st' = st\<lparr>heap := (heap st)(a := (heap st a)\<lparr>status := s, updatedAt := clock e\<rparr>)\<rparr>"
    using f by (simp add: updateStatus_def)
  show "fst (updateStatus i s e st) = Some a" using f by (simp add: updateStatus_def)
  from f have "has_id st i a" by (auto simp: find_Some_iff)
  then show "rid (heap st a) = i" by (simp add: has_id_def)
  show "heap ?st' a = (heap st a)\<lparr>status := s, updatedAt := clock e\<rparr>" by (simp add: st')
  show "rid (heap ?st' a) = rid (heap st a)" by (simp add: st')
  show "name (heap ?st' a) = name (heap st a)" by (simp add: st')
  show "ingredients (heap ?st' a) = ingredients (heap st a)" by (simp add: st')
  show "instructions (heap ?st' a) = instructions (heap st a)" by (simp add: st')
  show "metadata (heap ?st' a) = metadata (heap st a)" by (simp add: st')
  show "createdAt (heap ?st' a) = createdAt (heap st a)" by (simp add: st')
  show "recipes ?st' = recipes st" by (simp add: st')
  show "heap ?st' b = heap st b" if "b \<noteq> a" for b using that by (simp add: st')
  show "\<exists>k. findIndex (has_id st i) (recipes st) = Some k \<and>
          contents ?st' = (contents st)[k := (contents st ! k)\<lparr>status := s, updatedAt := clock e\<rparr>]"
    if d: "distinct (recipes st)"
  proof -
    from f obtain k where k: "findIndex (has_id st i) (recipes st) = Some k" "recipes st ! k = a"
      by (auto simp: find_findIndex)
    from findIndex_Some [OF k(1)] have kl: "k < length (recipes st)" by simp
    have "contents ?st' = map ((heap st)(recipes st ! k := (heap st a)\<lparr>status := s, updatedAt := clock e\<rparr>)) (recipes st)"
      by (simp add: st' contents_def k(2))
    also have "\<dots> = (contents st)[k := (heap st a)\<lparr>status := s, updatedAt := clock e\<rparr>]"
      unfolding contents_def by (rule map_fun_upd_distinct [OF d kl])
    finally show ?thesis using k kl by (auto simp: contents_def)
  qed
next
  assume "i \<notin> set (map rid (contents st))"
  then have "find (has_id st i) (recipes st) = None" unfolding absent_find .
  then show "updateStatus i s e st = (None, st)"
    by (simp add: updateStatus_def)
next
  assume a: "i \<notin> set (map rid (contents st))"
    and b: "i \<noteq> [] \<and> falsy (b_name body) \<and> b_status body = Some s"
  from a have "find (has_id st i) (recipes st) = None" unfolding absent_find .
  then have "updateStatus i s e st = (None, st)"
    by (simp add: updateStatus_def)
  with b show "PUT (Some i) body e st = (Failure 404 ''Recipe not found'', st)"
    by (simp add: PUT_def falsy_def)
qed


theorem updateStatus_frame_witness:
  "find (has_id initial_store ''1'') (recipes initial_store) = Some 0
   \<and> distinct (recipes initial_store)
   \<and> findIndex (has_id initial_store ''1'') (recipes initial_store) = Some 0
   \<and> contents (snd (updateStatus ''1'' Made a_moment_later initial_store))
       = [sample_1\<lparr>status := Made, updatedAt := 1705708800001\<rparr>, sample_2]
   \<and> ''3'' \<notin> set (map rid (contents initial_store))
   \<and> falsy (b_name made_body) \<and> b_status made_body = Some Made
   \<and> updateStatus ''3'' Made a_moment_later initial_store = (None, initial_store)
   \<and> PUT (Some ''3'') made_body a_moment_later initial_store
       = (Failure 404 ''Recipe not found'', initial_store)"
proof -
  have h1: "find (has_id initial_store ''1'') (recipes initial_store) = Some 0"
    by (simp add: sample_store_defs)
  have h2: "distinct (recipes initial_store)"
    by (simp add: initial_store_def)
  have h3: "''3'' \<notin> set (map rid (contents initial_store))"
    by (simp add: sample_store_defs)
  have h4: "falsy (b_name made_body) \<and> b_status made_body = Some Made"
    by (simp add: made_body_def falsy_def)
  have c: "contents initial_store = [sample_1, sample_2]"
    by (simp add: sample_store_defs)
  have k: "findIndex (has_id initial_store ''1'') (recipes initial_store) = Some 0"
    by (simp add: sample_store_defs)
  from updateStatus_frame [of initial_store "''1''" Made a_moment_later made_body] h1 h2 k
  have "contents (snd (updateStatus ''1'' Made a_moment_later initial_store))
          = (contents initial_store)[0 := (contents initial_store ! 0)
              \<lparr>status := Made, updatedAt := clock a_moment_later\<rparr>]"
    by auto
  then have r1: "contents (snd (updateStatus ''1'' Made a_moment_later initial_store))
       = [sample_1\<lparr>status := Made, updatedAt := 1705708800001\<rparr>, sample_2]"
    by (simp add: c a_moment_later_def)
  from updateStatus_frame [of initial_store "''3''" Made a_moment_later made_body] h3 h4
  have r2: "updateStatus ''3'' Made a_moment_later initial_store = (None, initial_store)"
    and r3: "PUT (Some ''3'') made_body a_moment_later initial_store
       = (Failure 404 ''Recipe not found'', initial_store)"
    by simp_all
  show ?thesis using h1 h2 h3 h4 k r1 r2 r3 by blast
qed

subsection \<open>Parsing form text\<close>







subsection \<open>The invariant of the reachable stores\<close>



lemma convert_fields:
  "name (convertFormDataToRecipe fd ido e st) = trim (f_name fd)"
  "ingredients (convertFormDataToRecipe fd ido e st) = parse_entries (CHR '','') (f_ingredients fd)"
  "instructions (convertFormDataToRecipe fd ido e st) = parse_entries (CHR 0x0A) (f_instructions fd)"
  "tags (metadata (convertFormDataToRecipe fd ido e st)) = parse_entries (CHR '','') (f_tags fd)"
  "status (convertFormDataToRecipe fd ido e st) = ToTry"
  "updatedAt (convertFormDataToRecipe fd ido e st) = clock e"
  by (simp_all add: convertFormDataToRecipe_def Let_def)












subsection \<open>The store as a list of records, and the creation time of an id\<close>





















subsection \<open>Creating and updating\<close>









subsection \<open>The status after a full update\<close>

lemma update_Some:
  assumes "update i fd e st = (Some a, st')"
  shows "\<exists>k. findIndex (has_id st i) (recipes st) = Some k \<and> a = next_addr st
             \<and> st' = st\<lparr>heap := (heap st)(a := convertFormDataToRecipe fd (Some i) e st),
                         recipes := (recipes st)[k := a], next_addr := Suc a\<rparr>"
  using assms by (auto simp: update_def Let_def split: option.splits)

lemma updateStatus_Some:
  assumes "updateStatus i s e st = (Some a, st')"
  shows "status (heap st' a) = s"
  using assms by (auto simp: updateStatus_def split: option.splits)

lemma PUT_success:
  assumes "PUT recipeId body e st = (Success 200 R, st')"
  shows "(\<exists>i s a. recipeId = Some i \<and> falsy (b_name body) \<and> b_status body = Some s
            \<and> updateStatus i s e st = (Some a, st') \<and> R = heap st' a)
       \<or> (\<exists>i fd a. recipeId = Some i \<and> body_form body = Some fd
            \<and> (\<not> falsy (b_name body) \<or> b_status body = None)
            \<and> update i fd e st = (Some a, st') \<and> R = heap st' a)"
proof (cases recipeId)
  case None
  with assms show ?thesis by (simp add: PUT_def falsy_def)
next
  case (Some i)
  show ?thesis
  proof (cases "if falsy (b_name body) then b_status body else None")
    case None
    then have branch: "\<not> falsy (b_name body) \<or> b_status body = None"
      by (auto split: if_splits)
    from assms Some None obtain fd where fd: "body_form body = Some fd"
      by (cases "body_form body") (auto simp: PUT_def split: if_splits)
    from assms Some None fd obtain a where "update i fd e st = (Some a, st')" "R = heap st' a"
      by (auto simp: PUT_def split: if_splits option.splits prod.splits)
    with Some fd branch show ?thesis by blast
  next
    case (Some s)
    then have branch: "falsy (b_name body)" "b_status body = Some s"
      by (auto split: if_splits)
    from assms \<open>recipeId = Some i\<close> Some
    obtain a where "updateStatus i s e st = (Some a, st')" "R = heap st' a"
      by (auto simp: PUT_def split: if_splits option.splits prod.splits)
    with \<open>recipeId = Some i\<close> branch show ?thesis by blast
  qed
qed

lemma exec_keeps_other_status:
  assumes "\<not> is_status_change x" and "b \<in> set (recipes (exec x st))"
    and "status (heap (exec x st) b) \<noteq> ToTry"
  shows "b \<in> set (recipes st) \<and> heap (exec x st) b = heap st b"
proof (cases x)
  case (Create fd e)
  let ?n = "next_addr st"
  have st': "exec x st = st\<lparr>heap := (heap st)(?n := convertFormDataToRecipe fd None e st),
                 recipes := recipes st @ [?n], next_addr := Suc ?n\<rparr>"
    by (simp add: Create create_def Let_def)
  from assms(3) have "b \<noteq> ?n" by (auto simp: st' convert_fields)
  with assms(2) show ?thesis by (auto simp: st')
next
  case (Update i fd e)
  show ?thesis
  proof (cases "update i fd e st")
    case (Pair r st')
    show ?thesis
    proof (cases r)
      case None
      with Pair have "exec x st = st"
        by (auto simp: Update update_def Let_def split: option.splits)
      with assms(2) show ?thesis by simp
    next
      case (Some a)
      with Pair update_Some obtain k where
        st': "st' = st\<lparr>heap := (heap st)(a := convertFormDataToRecipe fd (Some i) e st),
                       recipes := (recipes st)[k := a], next_addr := Suc a\<rparr>"
        by blast
      have ex: "exec x st = st'" by (simp add: Update Pair)
      from assms(3) have "b \<noteq> a" by (auto simp: ex st' convert_fields)
      moreover have "set ((recipes st)[k := a]) \<subseteq> insert a (set (recipes st))"
        by (rule set_update_subset_insert)
      ultimately show ?thesis using assms(2) by (auto simp: ex st')
    qed
  qed
next
  case (Delete i)
  show ?thesis
  proof (cases "findIndex (has_id st i) (recipes st)")
    case None
    then have "exec x st = st" by (simp add: Delete delete_def)
    with assms(2) show ?thesis by simp
  next
    case (Some k)
    then have st': "exec x st = st\<lparr>recipes := take k (recipes st) @ drop (Suc k) (recipes st)\<rparr>"
      by (simp add: Delete delete_def)
    from assms(2) have "b \<in> set (take k (recipes st)) \<union> set (drop (Suc k) (recipes st))"
      by (simp add: st')
    then have "b \<in> set (recipes st)"
      using set_take_subset [of k "recipes st"] set_drop_subset [of "Suc k" "recipes st"] by blast
    then show ?thesis by (simp add: st')
  qed
next
  case (UpdateStatus i s e)
  with assms(1) show ?thesis by simp
qed

text \<open>
  C10. A PUT whose body has a name is a full update, whatever status the body carries:
  when it succeeds, the record it returns and puts in the place of the old one has the
  status \<open>to-try\<close>. Afterwards no \<open>create\<close>, \<open>update\<close> or \<open>delete\<close> gives a record of
  the store another status than \<open>to-try\<close> (a record with another status is a record
  that was there, unchanged), and a PUT that returns a record with another status is a
  status-only update: its body has no name and has that status.
\<close>

theorem full_update_resets_status:
  assumes "\<not> falsy (b_name body)" and "PUT recipeId body e st = (Success 200 R, st')"
  shows "status R = ToTry
       \<and> (\<exists>i k a. recipeId = Some i \<and> findIndex (has_id st i) (recipes st) = Some k
             \<and> recipes st' = (recipes st)[k := a] \<and> heap st' a = R)
       \<and> (\<forall>x b. \<not> is_status_change x \<and> b \<in> set (recipes (exec x st'))
               \<and> status (heap (exec x st') b) \<noteq> ToTry
             \<longrightarrow> b \<in> set (recipes st') \<and> heap (exec x st') b = heap st' b)
       \<and> (\<forall>p body' e' R' st''.
             PUT p body' e' st' = (Success 200 R', st'') \<and> status R' \<noteq> ToTry
             \<longrightarrow> falsy (b_name body') \<and> b_status body' = Some (status R'))"
proof -
  from PUT_success [OF assms(2)] assms(1)
  obtain i fd a where p: "recipeId = Some i" "update i fd e st = (Some a, st')" "R = heap st' a"
    by blast
  from update_Some [OF p(2)] obtain k where
    k: "findIndex (has_id st i) (recipes st) = Some k"
    and st': "st' = st\<lparr>heap := (heap st)(a := convertFormDataToRecipe fd (Some i) e st),
                       recipes := (recipes st)[k := a], next_addr := Suc a\<rparr>"
    by blast
  have c1: "status R = ToTry" by (simp add: p(3) st' convert_fields)
  have "recipes st' = (recipes st)[k := a]" by (simp add: st')
  with p k have c2: "\<exists>i k a. recipeId = Some i \<and> findIndex (has_id st i) (recipes st) = Some k
             \<and> recipes st' = (recipes st)[k := a] \<and> heap st' a = R"
    by blast
  have c3: "\<forall>x b. \<not> is_status_change x \<and> b \<in> set (recipes (exec x st'))
               \<and> status (heap (exec x st') b) \<noteq> ToTry
             \<longrightarrow> b \<in> set (recipes st') \<and> heap (exec x st') b = heap st' b"
    using exec_keeps_other_status by blast
  have c4: "falsy (b_name body') \<and> b_status body' = Some (status R')"
    if h: "PUT p body' e' st' = (Success 200 R', st'')" "status R' \<noteq> ToTry"
    for p body' e' R' st''
  proof -
    from PUT_success [OF h(1)] consider
      (only_status) j s b where "falsy (b_name body')" "b_status body' = Some s"
        "updateStatus j s e' st' = (Some b, st'')" "R' = heap st'' b"
    | (full) j fd' b where "update j fd' e' st' = (Some b, st'')" "R' = heap st'' b"
      by blast
    then show ?thesis
    proof cases
      case only_status
      then show ?thesis using updateStatus_Some by auto
    next
      case full
      from update_Some [OF full(1)] have "status (heap st'' b) = ToTry"
        by (auto simp: convert_fields)
      with full(2) h(2) show ?thesis by simp
    qed
  qed
  from c1 c2 c3 c4 show ?thesis by blast
qed


theorem full_update_resets_status_witness:
  "\<not> falsy (b_name tacos_body)
   \<and> b_status tacos_body = Some Favorite
   \<and> status (heap initial_store 0) = Favorite
   \<and> rid (heap initial_store 0) = ''1''
   \<and> fst (PUT (Some ''1'') tacos_body a_moment_later initial_store)
       = Success 200 (heap (snd (PUT (Some ''1'') tacos_body a_moment_later initial_store)) 2)
   \<and> recipes (snd (PUT (Some ''1'') tacos_body a_moment_later initial_store)) = [2, 1]
   \<and> rid (heap (snd (PUT (Some ''1'') tacos_body a_moment_later initial_store)) 2) = ''1''
   \<and> status (heap (snd (PUT (Some ''1'') tacos_body a_moment_later initial_store)) 2) = ToTry"
proof -
  let ?st' = "snd (PUT (Some ''1'') tacos_body a_moment_later initial_store)"
  have h1: "\<not> falsy (b_name tacos_body)" by (simp add: tacos_body_def falsy_def)
  have b: "b_status tacos_body = Some Favorite" by (simp add: tacos_body_def)
  have o: "status (heap initial_store 0) = Favorite" "rid (heap initial_store 0) = ''1''"
    by (simp_all add: sample_store_defs)
  have nm: "b_name tacos_body = Some ''Tacos''" by (simp add: tacos_body_def)
  have bf: "body_form tacos_body = Some tacos"
    by (simp add: body_form_def tacos_body_def tacos_def)
  have k: "findIndex (has_id initial_store ''1'') (recipes initial_store) = Some 0"
    by (simp add: sample_store_defs)
  have n: "next_addr initial_store = 2" "recipes initial_store = [0, 1]"
    by (simp_all add: initial_store_def)
  have u: "update ''1'' tacos a_moment_later initial_store
      = (Some 2, initial_store\<lparr>heap := (heap initial_store)
            (2 := convertFormDataToRecipe tacos (Some ''1'') a_moment_later initial_store),
          recipes := [2, 1], next_addr := 3\<rparr>)"
    unfolding update_def k by (simp add: Let_def n)
  have p: "PUT (Some ''1'') tacos_body a_moment_later initial_store
      = (Success 200 (convertFormDataToRecipe tacos (Some ''1'') a_moment_later initial_store),
         initial_store\<lparr>heap := (heap initial_store)
            (2 := convertFormDataToRecipe tacos (Some ''1'') a_moment_later initial_store),
          recipes := [2, 1], next_addr := 3\<rparr>)"
    by (simp add: PUT_def falsy_def bf u nm trim_def is_space_def)
  have r: "heap ?st' 2 = convertFormDataToRecipe tacos (Some ''1'') a_moment_later initial_store"
    "recipes ?st' = [2, 1]"
    by (simp_all add: p)
  have h2: "PUT (Some ''1'') tacos_body a_moment_later initial_store
      = (Success 200 (heap ?st' 2), ?st')"
    by (simp add: p)
  have i: "rid (heap ?st' 2) = ''1''"
    unfolding r by (simp add: convertFormDataToRecipe_def Let_def)
  from full_update_resets_status [OF h1 h2] have "status (heap ?st' 2) = ToTry" by blast
  moreover have "fst (PUT (Some ''1'') tacos_body a_moment_later initial_store)
       = Success 200 (heap ?st' 2)"
    by (simp add: p)
  ultimately show ?thesis using h1 b o r(2) i by blast
qed

subsection \<open>What a result of \<open>getAll\<close> shows later\<close>













end
